theory Spec2Isabelle
  imports Complex_Main
begin

section \<open>Data model\<close>

text \<open>
  Python's \<open>Decimal\<close> values are modelled by the rational number they denote: every
  sum and product taken below has far fewer than the 28 significant digits of the
  default decimal context, so the arithmetic of the source is exact.  A Python
  \<open>float\<close> obtained by \<open>float(d)\<close> is identified with the decimal \<open>d\<close> it was
  converted from.
\<close>

type_synonym decimal = rat

text \<open>JSON payloads (\<open>Notification.data\<close>) and the pieces of an f-string message.\<close>

datatype jvalue = JNull | JInt int | JFloat decimal | JStr string

datatype piece = Lit string | Dec decimal

text \<open>
  \<open>accounts/models.py\<close>, class \<open>User\<close>: the fields read or written by the
  balance ledger and the threshold evaluator.  Here and in the records below,
  fields that no modelled operation reads (contact and device data, voltage,
  current and battery state, request metadata, creation stamps of payments,
  readings and notifications) are left out.
\<close>

record user =
  user_id :: nat
  balance :: decimal
  notifications_enabled :: bool
  low_balance_alert :: bool
  usage_alert :: bool
  low_balance_threshold :: decimal
  usage_threshold :: decimal

text \<open>
  \<open>energy_usage/models.py\<close>, class \<open>EnergyReading\<close>.  The primary key is
  \<open>None\<close> until the first save; \<open>timestamp\<close> is a UTC instant in seconds;
  \<open>cost\<close> is \<open>None\<close> while no cost has been provided.  The field
  \<open>reading_user\<close> is the related object \<open>instance.user\<close>.
\<close>

record energy_reading =
  reading_id :: "nat option"
  reading_user :: user
  timestamp :: int
  energy_kwh :: decimal
  power_kw :: decimal
  cost :: "decimal option"

text \<open>\<open>payments/models.py\<close>, class \<open>Payment\<close>.\<close>

record payment =
  payment_id :: "nat option"
  payment_user :: user
  reference :: string
  amount :: decimal
  payment_method :: string
  status :: string
  transaction_id :: "string option"
  description :: "string option"
  completed_at :: "int option"

text \<open>\<open>notifications/models.py\<close>, class \<open>Notification\<close>.\<close>

record notification =
  notification_id :: nat
  notification_user :: nat
  notification_type :: string
  title :: string
  message :: "piece list"
  data :: "(string \<times> jvalue) list"
  is_read :: bool
  read_at :: "int option"
  email_sent :: bool
  sms_sent :: bool
  push_sent :: bool

text \<open>\<open>energy_usage/models.py\<close>, class \<open>UsageSummary\<close>; dates are day numbers.\<close>

record usage_summary =
  summary_id :: nat
  summary_user :: nat
  period_type :: string
  start_date :: int
  end_date :: int
  total_energy_kwh :: decimal
  average_power_kw :: decimal
  peak_power_kw :: decimal
  total_cost :: decimal
  reading_count :: nat
  created_at :: int
  updated_at :: int

text \<open>
  The database: one table per model, rows in insertion order, and the sequence
  that hands out the next primary key of each table.
\<close>

record db =
  users :: "user list"
  energy_readings :: "energy_reading list"
  usage_summaries :: "usage_summary list"
  payments :: "payment list"
  notifications :: "notification list"
  reading_seq :: nat
  summary_seq :: nat
  payment_seq :: nat
  notification_seq :: nat

datatype error = ValidationError string | DatabaseError string

section \<open>Alert dispatcher and threshold evaluator\<close>

text \<open>
  \<open>Notification.objects.create(...)\<close>: a new row with the model's defaults
  (\<open>is_read\<close> and the three delivery flags false, \<open>read_at\<close> empty) and a fresh
  primary key.  No receiver listens to the saving of a notification.
\<close>

definition Notification_create ::
  "user \<Rightarrow> string \<Rightarrow> string \<Rightarrow> piece list \<Rightarrow> (string \<times> jvalue) list \<Rightarrow> db \<Rightarrow> db" where
  "Notification_create u ntype ttl msg d s =
     s\<lparr>notifications := notifications s @
          [\<lparr>notification_id = notification_seq s, notification_user = user_id u,
            notification_type = ntype, title = ttl, message = msg, data = d,
            is_read = False, read_at = None,
            email_sent = False, sms_sent = False, push_sent = False\<rparr>],
       notification_seq := Suc (notification_seq s)\<rparr>"

definition json_id :: "nat option \<Rightarrow> jvalue" where
  "json_id i = (case i of None \<Rightarrow> JNull | Some k \<Rightarrow> JInt (int k))"

text \<open>\<open>notifications/signals.py\<close>: the receiver of \<open>post_save\<close> on \<open>EnergyReading\<close>.\<close>

definition check_usage_alerts :: "energy_reading \<Rightarrow> bool \<Rightarrow> db \<Rightarrow> db" where
  "check_usage_alerts instance created s =
     (if created \<and> usage_alert (reading_user instance) then
        if energy_kwh instance \<ge> usage_threshold (reading_user instance) then
          Notification_create (reading_user instance) ''high_usage''
            ''High Energy Usage Alert''
            [Lit ''Your energy usage of '', Dec (energy_kwh instance),
             Lit ''kWh exceeds your threshold of '',
             Dec (usage_threshold (reading_user instance)), Lit ''kWh.'']
            [(''reading_id'', json_id (reading_id instance)),
             (''energy_kwh'', JFloat (energy_kwh instance)),
             (''threshold'', JFloat (usage_threshold (reading_user instance)))]
            s
        else s
      else s)"

text \<open>The receiver of \<open>post_save\<close> on \<open>Payment\<close>.\<close>

definition check_balance_alerts :: "payment \<Rightarrow> bool \<Rightarrow> db \<Rightarrow> db" where
  "check_balance_alerts instance created s =
     (if status instance = ''success'' \<and> low_balance_alert (payment_user instance) then
        if balance (payment_user instance) \<le> low_balance_threshold (payment_user instance) then
          Notification_create (payment_user instance) ''low_balance''
            ''Low Balance Alert''
            [Lit ''Your current balance of $'', Dec (balance (payment_user instance)),
             Lit '' is below your threshold of $'',
             Dec (low_balance_threshold (payment_user instance)),
             Lit ''. Please top up soon.'']
            [(''balance'', JFloat (balance (payment_user instance))),
             (''threshold'', JFloat (low_balance_threshold (payment_user instance)))]
            s
        else s
      else s)"


section \<open>Reading ingestor and cost model\<close>

text \<open>
  \<open>not self.cost\<close> holds for a missing cost and for a cost equal to zero.
\<close>

definition falsy :: "decimal option \<Rightarrow> bool" where
  "falsy c = (case c of None \<Rightarrow> True | Some v \<Rightarrow> v = 0)"

text \<open>
  \<open>EnergyReading.save\<close>.  The rate is the configuration value
  \<open>settings.ENERGY_RATE_PER_KWH\<close>, read as the decimal \<open>Decimal(str(...))\<close> makes
  of it.  \<open>super().save()\<close> inserts the row when the instance has no primary key
  (or none that is stored) and updates it otherwise, then sends \<open>post_save\<close>, whose
  only receiver for this model is \<open>check_usage_alerts\<close>.  The row keeps the value
  the source hands over; the storage layer's own quantisation of a decimal column
  is not part of the source.
\<close>

definition EnergyReading_save ::
  "decimal \<Rightarrow> energy_reading \<Rightarrow> db \<Rightarrow> energy_reading \<times> db" where
  "EnergyReading_save ENERGY_RATE_PER_KWH self s =
     (let self1 = (if falsy (cost self)
                   then self\<lparr>cost := Some (energy_kwh self * ENERGY_RATE_PER_KWH)\<rparr>
                   else self)
      in case reading_id self1 of
           None \<Rightarrow>
             (let self2 = self1\<lparr>reading_id := Some (reading_seq s)\<rparr>;
                  s1 = s\<lparr>energy_readings := energy_readings s @ [self2],
                         reading_seq := Suc (reading_seq s)\<rparr>
              in (self2, check_usage_alerts self2 True s1))
         | Some i \<Rightarrow>
             if list_ex (\<lambda>row. reading_id row = Some i) (energy_readings s) then
               (let s1 = s\<lparr>energy_readings :=
                           map (\<lambda>row. if reading_id row = Some i then self1 else row)
                               (energy_readings s)\<rparr>
                in (self1, check_usage_alerts self1 False s1))
             else
               (let s1 = s\<lparr>energy_readings := energy_readings s @ [self1]\<rparr>
                in (self1, check_usage_alerts self1 True s1)))"


section \<open>Balance ledger and payments\<close>

text \<open>
  \<open>User.update_balance\<close>: the in-memory balance is increased, then
  \<open>save(update_fields=['balance'])\<close> writes that one column of the user's row and
  fails when no row is affected.  The receiver of \<open>post_save\<close> on \<open>User\<close> acts on
  creation only and does nothing here.  The result is the returned balance (or the
  error), the mutated object and the database.
\<close>

definition update_balance ::
  "user \<Rightarrow> decimal \<Rightarrow> db \<Rightarrow> (error + decimal) \<times> user \<times> db" where
  "update_balance self amt s =
     (let self1 = self\<lparr>balance := balance self + amt\<rparr> in
      if list_ex (\<lambda>row. user_id row = user_id self1) (users s) then
        (Inr (balance self1), self1,
         s\<lparr>users := map (\<lambda>row. if user_id row = user_id self1
                                 then row\<lparr>balance := balance self1\<rparr> else row)
                         (users s)\<rparr>)
      else
        (Inl (DatabaseError ''Save with update_fields did not affect any rows.''), self1, s))"

text \<open>
  \<open>Payment.save\<close>: a missing reference is generated from the ten hexadecimal
  digits \<open>uuid\<close> the caller supplies for \<open>uuid.uuid4().hex[:10].upper()\<close>; the row
  is inserted or updated; \<open>post_save\<close> then runs \<open>check_balance_alerts\<close>.
\<close>

definition Payment_save :: "string \<Rightarrow> payment \<Rightarrow> db \<Rightarrow> payment \<times> db" where
  "Payment_save uuid self s =
     (let self1 = (if reference self = [] then self\<lparr>reference := ''PAY-'' @ uuid\<rparr> else self)
      in case payment_id self1 of
           None \<Rightarrow>
             (let self2 = self1\<lparr>payment_id := Some (payment_seq s)\<rparr>;
                  s1 = s\<lparr>payments := payments s @ [self2],
                         payment_seq := Suc (payment_seq s)\<rparr>
              in (self2, check_balance_alerts self2 True s1))
         | Some i \<Rightarrow>
             if list_ex (\<lambda>row. payment_id row = Some i) (payments s) then
               (let s1 = s\<lparr>payments :=
                           map (\<lambda>row. if payment_id row = Some i then self1 else row)
                               (payments s)\<rparr>
                in (self1, check_balance_alerts self1 False s1))
             else
               (let s1 = s\<lparr>payments := payments s @ [self1]\<rparr>
                in (self1, check_balance_alerts self1 True s1)))"

text \<open>
  \<open>Payment.mark_as_success\<close>, at time \<open>now\<close>.  The order is the source's: the
  status is set and the payment saved (which runs the receiver), then the balance
  is updated, then the payment-success notification is created.
\<close>

definition mark_as_success ::
  "int \<Rightarrow> string \<Rightarrow> payment \<Rightarrow> db \<Rightarrow> (error + unit) \<times> payment \<times> db" where
  "mark_as_success now uuid self s =
     (if status self \<noteq> ''success'' then
        (let self1 = self\<lparr>status := ''success'', completed_at := Some now\<rparr>;
             (self2, s1) = Payment_save uuid self1 s;
             (r, u, s2) = update_balance (payment_user self2) (amount self2) s1;
             self3 = self2\<lparr>payment_user := u\<rparr>
         in case r of
              Inl e \<Rightarrow> (Inl e, self3, s2)
            | Inr b \<Rightarrow>
                (Inr (), self3,
                 Notification_create (payment_user self3) ''payment_success''
                   ''Payment Successful''
                   [Lit ''Your payment of $'', Dec (amount self3),
                    Lit '' has been processed successfully.'']
                   [(''payment_id'', json_id (payment_id self3)),
                    (''reference'', JStr (reference self3))]
                   s2))
      else (Inr (), self, s))"

text \<open>\<open>PaymentCreateSerializer.validate_amount\<close>.\<close>

definition validate_amount :: "decimal \<Rightarrow> error + decimal" where
  "validate_amount v =
     (if v \<le> 0 then Inl (ValidationError ''Amount must be greater than 0'')
      else if v > 1000 then Inl (ValidationError ''Amount cannot exceed $1000 per transaction'')
      else Inr v)"

text \<open>
  \<open>PaymentViewSet.create\<close> for the authenticated \<open>request_user\<close>:
  \<open>is_valid(raise_exception=True)\<close> runs \<open>validate_amount\<close> on the submitted
  amount; the serializer then creates the payment (status \<open>pending\<close>), the view
  sets it to \<open>processing\<close> and saves, and \<open>mark_as_success\<close> follows at once.
\<close>

record payment_request =
  req_amount :: decimal
  req_payment_method :: string
  req_description :: "string option"

definition PaymentViewSet_create ::
  "int \<Rightarrow> string \<Rightarrow> user \<Rightarrow> payment_request \<Rightarrow> db \<Rightarrow> (error + payment) \<times> db" where
  "PaymentViewSet_create now uuid request_user req s =
     (case validate_amount (req_amount req) of
        Inl e \<Rightarrow> (Inl e, s)
      | Inr v \<Rightarrow>
          (let p0 = \<lparr>payment_id = None, payment_user = request_user, reference = [],
                     amount = v, payment_method = req_payment_method req,
                     status = ''pending'', transaction_id = None,
                     description = req_description req, completed_at = None\<rparr>;
               (p1, s1) = Payment_save uuid p0 s;
               p2 = p1\<lparr>status := ''processing'',
                       transaction_id := Some (''TXN-'' @ reference p1)\<rparr>;
               (p3, s2) = Payment_save uuid p2 s1;
               (r, p4, s3) = mark_as_success now uuid p3 s2
           in case r of Inl e \<Rightarrow> (Inl e, s3) | Inr _ \<Rightarrow> (Inr p4, s3)))"


section \<open>Aggregator\<close>

text \<open>
  A date or timestamp of the database is taken in UTC: the calendar day of an
  instant is its day number, the wall-clock hour its hour within that day.
\<close>

definition date_of :: "int \<Rightarrow> int" where
  "date_of t = t div 86400"


text \<open>
  A date parameter of a request: absent (or empty), present but rejected by the
  date parser, or present and parsed to a day number.
\<close>

datatype date_field = Absent | Unparsable | Date int

record generate_request =
  g_period_type :: "string option"
  g_start_date :: date_field
  g_end_date :: date_field

datatype body = ErrorBody string | SummaryBody string usage_summary

datatype response = Response body nat

text \<open>The aggregates of the ORM: \<open>Sum\<close>, \<open>Avg\<close> and \<open>Max\<close> are empty on no rows.\<close>

definition Sum :: "decimal list \<Rightarrow> decimal option" where
  "Sum xs = (if xs = [] then None else Some (sum_list xs))"

definition Avg :: "decimal list \<Rightarrow> decimal option" where
  "Avg xs = (if xs = [] then None else Some (sum_list xs / of_nat (length xs)))"

definition Max_agg :: "decimal list \<Rightarrow> decimal option" where
  "Max_agg xs = (case xs of [] \<Rightarrow> None | x # r \<Rightarrow> Some (fold max r x))"

definition or0 :: "decimal option \<Rightarrow> decimal" where
  "or0 v = (case v of None \<Rightarrow> 0 | Some x \<Rightarrow> x)"

definition stored_cost :: "energy_reading \<Rightarrow> decimal" where
  "stored_cost r = (case cost r of None \<Rightarrow> 0 | Some c \<Rightarrow> c)"

text \<open>The readings a summary is computed from.\<close>

definition period_readings :: "user \<Rightarrow> int \<Rightarrow> int \<Rightarrow> db \<Rightarrow> energy_reading list" where
  "period_readings u sd ed s =
     filter (\<lambda>r. user_id (reading_user r) = user_id u \<and>
                 date_of (timestamp r) \<ge> sd \<and> date_of (timestamp r) \<le> ed)
            (energy_readings s)"

record summary_defaults =
  d_end_date :: int
  d_total_energy_kwh :: decimal
  d_average_power_kw :: decimal
  d_peak_power_kw :: decimal
  d_total_cost :: decimal
  d_reading_count :: nat

definition summary_key :: "user \<Rightarrow> string \<Rightarrow> int \<Rightarrow> usage_summary \<Rightarrow> bool" where
  "summary_key u ptype sd row =
     (summary_user row = user_id u \<and> period_type row = ptype \<and> start_date row = sd)"

text \<open>
  \<open>UsageSummary.objects.update_or_create(user, period_type, start_date, defaults)\<close>
  at time \<open>now\<close>: the row with the key has every default written over it and its
  \<open>updated_at\<close> stamped; without such a row one is created from key and defaults.
\<close>

definition update_or_create ::
  "int \<Rightarrow> user \<Rightarrow> string \<Rightarrow> int \<Rightarrow> summary_defaults \<Rightarrow> db \<Rightarrow> usage_summary \<times> bool \<times> db" where
  "update_or_create now u ptype sd defaults s =
     (case find (summary_key u ptype sd) (usage_summaries s) of
        Some row \<Rightarrow>
          (let row1 = row\<lparr>end_date := d_end_date defaults,
                          total_energy_kwh := d_total_energy_kwh defaults,
                          average_power_kw := d_average_power_kw defaults,
                          peak_power_kw := d_peak_power_kw defaults,
                          total_cost := d_total_cost defaults,
                          reading_count := d_reading_count defaults,
                          updated_at := now\<rparr>
           in (row1, False,
               s\<lparr>usage_summaries :=
                    map (\<lambda>r. if summary_id r = summary_id row then row1 else r)
                        (usage_summaries s)\<rparr>))
      | None \<Rightarrow>
          (let row1 = \<lparr>summary_id = summary_seq s, summary_user = user_id u,
                       period_type = ptype, start_date = sd,
                       end_date = d_end_date defaults,
                       total_energy_kwh = d_total_energy_kwh defaults,
                       average_power_kw = d_average_power_kw defaults,
                       peak_power_kw = d_peak_power_kw defaults,
                       total_cost = d_total_cost defaults,
                       reading_count = d_reading_count defaults,
                       created_at = now, updated_at = now\<rparr>
           in (row1, True,
               s\<lparr>usage_summaries := usage_summaries s @ [row1],
                 summary_seq := Suc (summary_seq s)\<rparr>)))"

text \<open>
  The \<open>defaults\<close> of \<open>generate\<close>: the end date and the aggregates
  \<open>readings.aggregate(Sum, Avg, Max, Sum, Count)\<close>, each taken \<open>or 0\<close>.
\<close>

definition summary_defaults_of :: "int \<Rightarrow> energy_reading list \<Rightarrow> summary_defaults" where
  "summary_defaults_of ed readings =
     \<lparr>d_end_date = ed,
      d_total_energy_kwh = or0 (Sum (map energy_kwh readings)),
      d_average_power_kw = or0 (Avg (map power_kw readings)),
      d_peak_power_kw = or0 (Max_agg (map power_kw readings)),
      d_total_cost = or0 (Sum (map stored_cost readings)),
      d_reading_count = length readings\<rparr>"

text \<open>\<open>UsageSummaryViewSet.generate\<close> for the authenticated \<open>request_user\<close>.\<close>

definition generate :: "int \<Rightarrow> user \<Rightarrow> generate_request \<Rightarrow> db \<Rightarrow> response \<times> db" where
  "generate now request_user req s =
     (let ptype = (case g_period_type req of None \<Rightarrow> ''daily'' | Some p \<Rightarrow> p) in
      if g_start_date req = Absent \<or> g_end_date req = Absent then
        (Response (ErrorBody ''start_date and end_date are required'') 400, s)
      else
        case (g_start_date req, g_end_date req) of
          (Date sd, Date ed) \<Rightarrow>
            (let readings = period_readings request_user sd ed s in
             if readings = [] then
               (Response (ErrorBody ''No readings found for this period'') 404, s)
             else
               (let defaults = summary_defaults_of ed readings;
                    (summary, created, s1) =
                      update_or_create now request_user ptype sd defaults s
                in (Response
                      (SummaryBody (if created then ''Summary generated successfully''
                                    else ''Summary updated'') summary)
                      (if created then 201 else 200),
                    s1)))
        | _ \<Rightarrow> (Response (ErrorBody ''Invalid date format. Use YYYY-MM-DD'') 400, s))"

subsection \<open>Chart series\<close>





text \<open>
  \<open>round(d, 2)\<close> on a float: the nearest multiple of one hundredth, a tie going to
  the even one.
\<close>

definition round_half_even :: "rat \<Rightarrow> int" where
  "round_half_even x =
     (let f = \<lfloor>x\<rfloor>; d = x - of_int f in
      if d < 1 / 2 then f
      else if d > 1 / 2 then f + 1
      else if even f then f else f + 1)"

definition py_round2 :: "decimal \<Rightarrow> decimal" where
  "py_round2 d = of_int (round_half_even (d * 100)) / 100"





section \<open>Signal dispatch\<close>

text \<open>
  A \<open>post_save\<close> signal carries the saved instance and the \<open>created\<close> flag; the
  framework hands it to the receiver registered for the sender's model.  An event
  qualifies when the receiver's conditions hold for it.
\<close>

datatype event = ReadingSaved energy_reading bool | PaymentSaved payment bool

fun post_save :: "event \<Rightarrow> db \<Rightarrow> db" where
  "post_save (ReadingSaved instance created) s = check_usage_alerts instance created s"
| "post_save (PaymentSaved instance created) s = check_balance_alerts instance created s"

fun qualifying :: "event \<Rightarrow> bool" where
  "qualifying (ReadingSaved instance created) =
     (created \<and> usage_alert (reading_user instance) \<and>
      energy_kwh instance \<ge> usage_threshold (reading_user instance))"
| "qualifying (PaymentSaved instance created) =
     (status instance = ''success'' \<and> low_balance_alert (payment_user instance) \<and>
      balance (payment_user instance) \<le> low_balance_threshold (payment_user instance))"

fun alert_kind :: "event \<Rightarrow> string" where
  "alert_kind (ReadingSaved instance created) = ''high_usage''"
| "alert_kind (PaymentSaved instance created) = ''low_balance''"

section \<open>The specification's reference quantities\<close>


text \<open>
  A validation error of the aggregator, as the specification has it: the request
  is refused as malformed, which the view answers with status 400.
\<close>

fun is_validation_error :: "response \<Rightarrow> bool" where
  "is_validation_error (Response (ErrorBody msg) code) = (code = 400)"
| "is_validation_error (Response (SummaryBody msg summary) code) = False"



section \<open>Example data\<close>

definition alice :: user where
  "alice = \<lparr>user_id = 1, balance = 5, notifications_enabled = True,
            low_balance_alert = True, usage_alert = True,
            low_balance_threshold = 10, usage_threshold = 5\<rparr>"

definition empty_db :: db where
  "empty_db = \<lparr>users = [alice], energy_readings = [], usage_summaries = [],
               payments = [], notifications = [],
               reading_seq = 1, summary_seq = 1, payment_seq = 1, notification_seq = 1\<rparr>"

definition new_reading :: "int \<Rightarrow> decimal \<Rightarrow> decimal \<Rightarrow> energy_reading" where
  "new_reading t e p = \<lparr>reading_id = None, reading_user = alice, timestamp = t,
                        energy_kwh = e, power_kw = p, cost = None\<rparr>"


text \<open>
  A database holding one reading of 5 kWh, and one holding one reading of
  0.004 kWh, both taken on day 1 between 01:00 and 02:00.
\<close>

definition one_reading_db :: db where
  "one_reading_db = snd (EnergyReading_save 20 (new_reading 90000 5 1) empty_db)"


definition period_request :: "int \<Rightarrow> int \<Rightarrow> generate_request" where
  "period_request sd ed = \<lparr>g_period_type = None, g_start_date = Date sd, g_end_date = Date ed\<rparr>"

definition paid :: "decimal \<Rightarrow> payment" where
  "paid a = \<lparr>payment_id = Some 1, payment_user = alice, reference = ''PAY-0123456789'',
             amount = a, payment_method = ''mobile'', status = ''success'',
             transaction_id = None, description = None, completed_at = Some 0\<rparr>"

section \<open>Threshold evaluator: verified properties\<close>

lemma notifications_create [simp]:
  "notifications (Notification_create u ty ttl msg d s) =
     notifications s @
       [\<lparr>notification_id = notification_seq s, notification_user = user_id u,
         notification_type = ty, title = ttl, message = msg, data = d,
         is_read = False, read_at = None,
         email_sent = False, sms_sent = False, push_sent = False\<rparr>]"
  by (simp add: Notification_create_def)

lemma notification_seq_create [simp]:
  "notification_seq (Notification_create u ty ttl msg d s) = Suc (notification_seq s)"
  by (simp add: Notification_create_def)

text \<open>
  Claim C6.  Saving a newly created reading (one without a primary key) adds
  exactly one notification, of type \<open>high_usage\<close> and carrying the reading's id,
  its energy and the threshold, when the user's usage-alert flag is on and the
  energy is at least the usage threshold; in every other case, in particular
  whenever the flag is off, the notifications stay as they were.
\<close>

theorem high_usage_alert_iff:
  assumes "reading_id self = None"
  shows "notifications (snd (EnergyReading_save rate self s)) =
     (if usage_alert (reading_user self) \<and>
         energy_kwh self \<ge> usage_threshold (reading_user self)
      then notifications s @
        [\<lparr>notification_id = notification_seq s,
          notification_user = user_id (reading_user self),
          notification_type = ''high_usage'',
          title = ''High Energy Usage Alert'',
          message = [Lit ''Your energy usage of '', Dec (energy_kwh self),
                     Lit ''kWh exceeds your threshold of '',
                     Dec (usage_threshold (reading_user self)), Lit ''kWh.''],
          data = [(''reading_id'', JInt (int (reading_seq s))),
                  (''energy_kwh'', JFloat (energy_kwh self)),
                  (''threshold'', JFloat (usage_threshold (reading_user self)))],
          is_read = False, read_at = None,
          email_sent = False, sms_sent = False, push_sent = False\<rparr>]
      else notifications s)"
  using assms
  by (simp add: EnergyReading_save_def check_usage_alerts_def Let_def json_id_def)

text \<open>
  The boundary case of the specification: threshold 5.0 and energy 5.0 raise the
  alert.
\<close>

theorem high_usage_alert_iff_witness:
  "reading_id (new_reading 1000 5 1) = None \<and>
   map (\<lambda>n. (notification_type n, data n))
       (notifications (snd (EnergyReading_save 20 (new_reading 1000 5 1) empty_db))) =
     [(''high_usage'',
       [(''reading_id'', JInt 1), (''energy_kwh'', JFloat 5), (''threshold'', JFloat 5)])]"
proof -
  have h: "reading_id (new_reading 1000 5 1) = None"
    by (simp add: new_reading_def)
  show ?thesis
    using h high_usage_alert_iff [OF h, of 20 empty_db]
    by (simp add: new_reading_def alice_def empty_db_def)
qed

lemma post_save_qualifying:
  assumes "qualifying e"
  shows "\<exists>n. notifications (post_save e s) = notifications s @ [n] \<and>
             notification_id n = notification_seq s \<and>
             notification_type n = alert_kind e \<and>
             notification_seq (post_save e s) = Suc (notification_seq s)"
  using assms
  by (cases e) (simp_all add: check_usage_alerts_def check_balance_alerts_def)

text \<open>
  Claim C7.  The evaluator keeps no memory: starting from any database, whatever
  notifications it already holds, a run of \<open>n\<close> qualifying events appends exactly
  \<open>n\<close> notifications, one per event and of the event's kind, with \<open>n\<close>
  consecutive fresh primary keys, and leaves the earlier notifications in place.
\<close>

theorem every_qualifying_event_raises_new_alert:
  assumes "\<forall>e \<in> set es. qualifying e"
  shows "\<exists>new. notifications (fold post_save es s) = notifications s @ new \<and>
               length new = length es \<and>
               map notification_id new =
                 [notification_seq s ..< notification_seq s + length es] \<and>
               map notification_type new = map alert_kind es \<and>
               notification_seq (fold post_save es s) = notification_seq s + length es"
  using assms
proof (induction es arbitrary: s)
  case Nil
  show ?case by simp
next
  case (Cons e es)
  from Cons.prems have q: "qualifying e" and qs: "\<forall>e \<in> set es. qualifying e"
    by simp_all
  from post_save_qualifying [OF q, of s] obtain n where
    n: "notifications (post_save e s) = notifications s @ [n]"
       "notification_id n = notification_seq s"
       "notification_type n = alert_kind e"
       "notification_seq (post_save e s) = Suc (notification_seq s)"
    by blast
  from Cons.IH [OF qs, of "post_save e s"] obtain new where
    new: "notifications (fold post_save es (post_save e s)) =
            notifications (post_save e s) @ new"
         "length new = length es"
         "map notification_id new =
            [notification_seq (post_save e s) ..<
             notification_seq (post_save e s) + length es]"
         "map notification_type new = map alert_kind es"
         "notification_seq (fold post_save es (post_save e s)) =
            notification_seq (post_save e s) + length es"
    by blast
  have "[notification_seq s ..< notification_seq s + length (e # es)] =
        notification_seq s # [Suc (notification_seq s) ..< Suc (notification_seq s) + length es]"
    by (subst upt_rec) simp
  with n new show ?case
    by (intro exI [of _ "n # new"]) simp
qed


theorem every_qualifying_event_raises_new_alert_witness:
  "qualifying (PaymentSaved (paid 100) False) \<and>
   qualifying (ReadingSaved (new_reading 1000 7 1) True) \<and>
   (\<exists>new. notifications (fold post_save
        [PaymentSaved (paid 100) False, PaymentSaved (paid 100) False,
         ReadingSaved (new_reading 1000 7 1) True]
        (snd (EnergyReading_save 20 (new_reading 1000 5 1) empty_db))) =
      notifications (snd (EnergyReading_save 20 (new_reading 1000 5 1) empty_db)) @ new \<and>
      map notification_id new = [2, 3, 4] \<and>
      map notification_type new = [''low_balance'', ''low_balance'', ''high_usage''])"
proof -
  define es where "es = [PaymentSaved (paid 100) False, PaymentSaved (paid 100) False,
       ReadingSaved (new_reading 1000 7 1) True]"
  define s where "s = snd (EnergyReading_save 20 (new_reading 1000 5 1) empty_db)"
  have h: "\<forall>e \<in> set es. qualifying e"
    by (simp add: es_def paid_def new_reading_def alice_def)
  have sq: "notification_seq s = 2"
    by (simp add: s_def EnergyReading_save_def check_usage_alerts_def new_reading_def
        alice_def empty_db_def falsy_def Let_def)
  have len: "length es = 3"
    by (simp add: es_def)
  have u: "[2 ..< 2 + (3::nat)] = [2, 3, 4]"
    by (simp add: upt_rec)
  have k: "map alert_kind es = [''low_balance'', ''low_balance'', ''high_usage'']"
    by (simp add: es_def)
  from every_qualifying_event_raises_new_alert [OF h, of s]
  obtain new where n: "notifications (fold post_save es s) = notifications s @ new"
    "map notification_id new = [notification_seq s ..< notification_seq s + length es]"
    "map notification_type new = map alert_kind es"
    by (elim exE conjE)
  have "map notification_id new = [2, 3, 4]"
    using n(2) unfolding sq len u .
  moreover have "map notification_type new = [''low_balance'', ''low_balance'', ''high_usage'']"
    using n(3) unfolding k .
  ultimately have "\<exists>new. notifications (fold post_save es s) = notifications s @ new \<and>
          map notification_id new = [2, 3, 4] \<and>
          map notification_type new = [''low_balance'', ''low_balance'', ''high_usage'']"
    using n(1) by (intro exI [of _ new] conjI)
  moreover have "qualifying (PaymentSaved (paid 100) False)"
    and "qualifying (ReadingSaved (new_reading 1000 7 1) True)"
    using h by (simp_all add: es_def)
  ultimately show ?thesis
    unfolding es_def s_def by (intro conjI)
qed

section \<open>Balance ledger: verified properties\<close>






lemma users_create [simp]: "users (Notification_create u ty ttl msg d s) = users s"
  by (simp add: Notification_create_def)

lemma users_check_balance_alerts [simp]: "users (check_balance_alerts p c s) = users s"
  by (simp add: check_balance_alerts_def)

lemma Payment_save_users [simp]: "users (snd (Payment_save uuid p s)) = users s"
  by (simp add: Payment_save_def Let_def split: option.splits)

lemma Payment_save_fields [simp]:
  "amount (fst (Payment_save uuid p s)) = amount p"
  "status (fst (Payment_save uuid p s)) = status p"
  "payment_user (fst (Payment_save uuid p s)) = payment_user p"
  by (simp_all add: Payment_save_def Let_def split: option.splits)






text \<open>
  Claim C1, evaluated on the code.  The user has balance 5.00, low-balance
  threshold 10.00 and the low-balance alert enabled, and pays 100.00.  The
  payment succeeds and the balance becomes 105.00, above the threshold; yet a
  \<open>low_balance\<close> notification has been raised, and its payload carries the
  balance 5.00 held before the credit.  The receiver runs inside the
  \<open>save()\<close> of \<open>mark_as_success\<close>, which comes before \<open>update_balance\<close>.
\<close>

theorem low_balance_alert_uses_balance_before_credit:
  "map (\<lambda>n. (notification_type n, data n))
     (notifications (snd (PaymentViewSet_create 0 ''0123456789'' alice
        \<lparr>req_amount = 100, req_payment_method = ''mobile'', req_description = None\<rparr>
        empty_db))) =
     [(''low_balance'', [(''balance'', JFloat 5), (''threshold'', JFloat 10)]),
      (''payment_success'',
       [(''payment_id'', JInt 1), (''reference'', JStr ''PAY-0123456789'')])] \<and>
   map (\<lambda>row. (balance row, low_balance_threshold row))
     (users (snd (PaymentViewSet_create 0 ''0123456789'' alice
        \<lparr>req_amount = 100, req_payment_method = ''mobile'', req_description = None\<rparr>
        empty_db))) = [(105, 10)]"
  by (simp add: PaymentViewSet_create_def validate_amount_def Payment_save_def
      mark_as_success_def update_balance_def check_balance_alerts_def
      Notification_create_def json_id_def alice_def empty_db_def Let_def)

section \<open>Cost model: verified properties\<close>

lemma energy_readings_create [simp]:
  "energy_readings (Notification_create u ty ttl msg d s) = energy_readings s"
  by (simp add: Notification_create_def)

lemma energy_readings_check_usage_alerts [simp]:
  "energy_readings (check_usage_alerts r c s) = energy_readings s"
  by (simp add: check_usage_alerts_def)



lemma save_energy [simp]:
  "energy_kwh (fst (EnergyReading_save rate self s)) = energy_kwh self"
  by (simp add: EnergyReading_save_def Let_def split: option.splits)




section \<open>Aggregator: verified properties\<close>

lemma one_reading_db_readings:
  "energy_readings one_reading_db =
     [\<lparr>reading_id = Some 1, reading_user = alice, timestamp = 90000,
       energy_kwh = 5, power_kw = 1, cost = Some 100\<rparr>]"
  by (simp add: one_reading_db_def EnergyReading_save_def new_reading_def empty_db_def
      falsy_def Let_def)


lemma period_readings_days_5_6: "period_readings alice 5 6 one_reading_db = []"
  by (simp add: period_readings_def one_reading_db_readings date_of_def)

lemma generate_no_readings:
  assumes "g_start_date req = Date sd" and "g_end_date req = Date ed"
    and "period_readings u sd ed s = []"
  shows "generate now u req s =
           (Response (ErrorBody ''No readings found for this period'') 404, s)"
  using assms by (simp add: generate_def)

lemma period_readings_reversed_range:
  assumes "sd > ed"
  shows "period_readings u sd ed s = []"
  using assms by (auto simp: period_readings_def filter_empty_conv)

text \<open>
  Claim C4.  When no reading of the user falls in the requested range,
  \<open>generate\<close> answers "No readings found for this period" with status 404 and
  returns the database as it received it: no summary is created or updated.
\<close>

theorem empty_range_not_found_and_nothing_written:
  assumes "g_start_date req = Date sd" and "g_end_date req = Date ed"
    and "period_readings u sd ed s = []"
  shows "generate now u req s =
           (Response (ErrorBody ''No readings found for this period'') 404, s)"
  using assms by (rule generate_no_readings)

theorem empty_range_not_found_and_nothing_written_witness:
  "g_start_date (period_request 5 6) = Date 5 \<and> g_end_date (period_request 5 6) = Date 6 \<and>
   period_readings alice 5 6 one_reading_db = [] \<and>
   generate 0 alice (period_request 5 6) one_reading_db =
     (Response (ErrorBody ''No readings found for this period'') 404, one_reading_db)"
proof -
  have h1: "g_start_date (period_request 5 6) = Date 5"
    and h2: "g_end_date (period_request 5 6) = Date 6"
    by (simp_all add: period_request_def)
  note h3 = period_readings_days_5_6
  show ?thesis
    by (rule conjI [OF h1 conjI [OF h2 conjI [OF h3
          empty_range_not_found_and_nothing_written [OF h1 h2 h3, of 0]]]])
qed

text \<open>
  Claim C5, as stated, fails on the code.  A request for the range from day 2
  back to day 0, on a database whose only reading is of day 1, is not refused as
  a validation error.
\<close>

theorem reversed_range_counterexample:
  "\<not> is_validation_error (fst (generate 0 alice (period_request 2 0) one_reading_db))"
  by (simp add: generate_def period_request_def period_readings_def
      one_reading_db_readings date_of_def)

text \<open>
  Claim C5, amended.  The view has no check of the order of the two dates.  A
  range whose start lies after its end matches no reading, so the request is
  answered "No readings found for this period" with status 404, and nothing is
  written: the database is returned unchanged.
\<close>

theorem reversed_range_not_found_and_nothing_written:
  assumes "g_start_date req = Date sd" and "g_end_date req = Date ed" and "sd > ed"
  shows "generate now u req s =
           (Response (ErrorBody ''No readings found for this period'') 404, s)"
  using assms(1,2) period_readings_reversed_range [OF assms(3)]
  by (rule generate_no_readings)

theorem reversed_range_not_found_and_nothing_written_witness:
  "g_start_date (period_request 2 0) = Date 2 \<and> g_end_date (period_request 2 0) = Date 0 \<and>
   (2::int) > 0 \<and>
   generate 0 alice (period_request 2 0) one_reading_db =
     (Response (ErrorBody ''No readings found for this period'') 404, one_reading_db)"
proof -
  have h1: "g_start_date (period_request 2 0) = Date 2"
    and h2: "g_end_date (period_request 2 0) = Date 0"
    by (simp_all add: period_request_def)
  have h3: "(2::int) > 0"
    by simp
  show ?thesis
    by (rule conjI [OF h1 conjI [OF h2 conjI [OF h3
          reversed_range_not_found_and_nothing_written [OF h1 h2 h3, of 0]]]])
qed



lemma update_or_create_energy_readings [simp]:
  "energy_readings (snd (snd (update_or_create now u ptype sd d s))) = energy_readings s"
  by (simp add: update_or_create_def Let_def split: option.splits)












lemma py_round2_zero [simp]: "py_round2 0 = 0"
  by (simp add: py_round2_def round_half_even_def)





end
